theory Spec2Isabelle
  imports Main "HOL-Library.Word" "HOL-Library.Sublist"
begin

section \<open>Machine data of main.go\<close>

text \<open>
  Go's \<open>int32\<close>, \<open>uint16\<close> are words of that width: \<open>+\<close> and unary \<open>-\<close> wrap
  around, \<open>sint\<close> reads the two's-complement value. File descriptors (Go \<open>int\<close>)
  are only compared with 0 and passed on, so they are \<open>int\<close>. An errno is a \<open>nat\<close>.
\<close>

type_synonym int32 = "32 word"
type_synonym uint16 = "16 word"
type_synonym errno = nat

subsection \<open>float64\<close>

text \<open>
  An IEEE 754 binary64 value: \<open>Finite s m e\<close> stands for \<open>(-1)^s * m * 2^e\<close>
  (a zero mantissa is a signed zero). The program only converts an \<open>int32\<close> to
  \<open>float64\<close> (exact), multiplies two \<open>float64\<close> (round to nearest, ties to even,
  53 bits of precision, exponents of the mantissa's unit from -1074, overflow to
  infinity) and converts the product back to \<open>int32\<close>.
\<close>

datatype float64 = Finite bool nat int | Infinity bool | NaN

fun bit_length :: "nat \<Rightarrow> nat" where
  "bit_length n = (if n = 0 then 0 else Suc (bit_length (n div 2)))"

declare bit_length.simps [simp del]

definition roundFloat64 :: "bool \<Rightarrow> nat \<Rightarrow> int \<Rightarrow> float64" where
  "roundFloat64 s m e =
     (let k = max (int (bit_length m) - 53) (- 1074 - e) in
      if k \<le> 0 then
        (if int (bit_length m) + e > 1024 then Infinity s else Finite s m e)
      else
        (let d = 2 ^ nat k; q = m div d; r = m mod d;
             q' = (if 2 * r > d \<or> (2 * r = d \<and> odd q) then q + 1 else q)
         in if int (bit_length q') + (e + k) > 1024 then Infinity s
            else Finite s q' (e + k)))"

text \<open>The \<open>*\<close> of two \<open>float64\<close>.\<close>

fun float64_mul :: "float64 \<Rightarrow> float64 \<Rightarrow> float64" where
  "float64_mul NaN y = NaN"
| "float64_mul (Infinity s) NaN = NaN"
| "float64_mul (Finite s m e) NaN = NaN"
| "float64_mul (Infinity s) (Infinity t) = Infinity (s \<noteq> t)"
| "float64_mul (Infinity s) (Finite t n f) = (if n = 0 then NaN else Infinity (s \<noteq> t))"
| "float64_mul (Finite s m e) (Infinity t) = (if m = 0 then NaN else Infinity (s \<noteq> t))"
| "float64_mul (Finite s m e) (Finite t n f) = roundFloat64 (s \<noteq> t) (m * n) (e + f)"

text \<open>The conversion \<open>float64(v)\<close> of an \<open>int32\<close>: exact, since \<open>|v| \<le> 2^31 < 2^53\<close>.\<close>

definition float64_of_int32 :: "int32 \<Rightarrow> float64" where
  "float64_of_int32 v = Finite (sint v < 0) (nat \<bar>sint v\<bar>) 0"

text \<open>
  The integer part of a finite \<open>float64\<close> (the fraction discarded, that is rounding
  toward zero); \<open>None\<close> for infinities and NaN.
\<close>

definition truncFloat64 :: "float64 \<Rightarrow> int option" where
  "truncFloat64 x =
     (case x of
        Finite s m e \<Rightarrow>
          (let t = (if 0 \<le> e then int m * 2 ^ nat e else int m div 2 ^ nat (- e))
           in Some (if s then - t else t))
      | Infinity s \<Rightarrow> None
      | NaN \<Rightarrow> None)"

text \<open>
  The conversion \<open>int32(x)\<close> of a \<open>float64\<close>: the fraction is discarded; where the
  result does not fit \<open>int32\<close> (or \<open>x\<close> is an infinity or NaN) the conversion succeeds
  with an implementation-dependent value, the platform's \<open>conv\<close>.
\<close>

definition int32_of_float64 :: "(float64 \<Rightarrow> int32) \<Rightarrow> float64 \<Rightarrow> int32" where
  "int32_of_float64 conv x =
     (case truncFloat64 x of
        Some z \<Rightarrow> if - (2 ^ 31) \<le> z \<and> z < 2 ^ 31 then word_of_int z else conv x
      | None \<Rightarrow> conv x)"

subsection \<open>Constants\<close>

definition MAX_EVENT_DEVICES :: nat where "MAX_EVENT_DEVICES = 32"
definition DEVICE_SETUP_DELAY :: nat where "DEVICE_SETUP_DELAY = 100"
definition UINPUT_MAX_NAME_SIZE :: nat where "UINPUT_MAX_NAME_SIZE = 80"
definition UI_SET_EVBIT :: nat where "UI_SET_EVBIT = 0x40045564"
definition UI_SET_RELBIT :: nat where "UI_SET_RELBIT = 0x40045566"
definition UI_DEV_SETUP :: nat where "UI_DEV_SETUP = 0x405c5503"
definition UI_DEV_CREATE :: nat where "UI_DEV_CREATE = 0x5501"
definition UI_DEV_DESTROY :: nat where "UI_DEV_DESTROY = 0x5502"
definition EV_REL :: uint16 where "EV_REL = 0x02"
definition REL_WHEEL :: uint16 where "REL_WHEEL = 0x08"
definition REL_HWHEEL :: uint16 where "REL_HWHEEL = 0x06"
definition EV_SYN :: uint16 where "EV_SYN = 0x00"
definition SYN_REPORT :: uint16 where "SYN_REPORT = 0x00"

text \<open>
  The event codes of the evdev package (the Linux input event codes), which the
  program reads as \<open>evdev.EV_REL\<close>, \<open>evdev.REL_X\<close> and \<open>evdev.REL_Y\<close>.
\<close>

definition evdev_EV_REL :: uint16 where "evdev_EV_REL = 0x02"
definition evdev_REL_X :: uint16 where "evdev_REL_X = 0x00"
definition evdev_REL_Y :: uint16 where "evdev_REL_Y = 0x01"

section \<open>Events, errors and the environment\<close>

record Timeval =
  Sec :: int
  Usec :: int

text \<open>
  The Linux input event record. The program's \<open>InputEvent\<close> and the evdev package's
  \<open>evdev.InputEvent\<close> have the same four fields.
\<close>

record InputEvent =
  Time :: Timeval
  Type :: uint16
  Code :: uint16
  Value :: int32

record InputID =
  Bustype :: uint16
  Vendor :: uint16
  Product :: uint16
  Version :: uint16

record UinputSetup =
  ID :: InputID
  Name :: string

text \<open>
  A Go \<open>error\<close>: a bare errno, or the result of \<open>fmt.Errorf\<close> with its format, its
  string arguments and its error arguments.
\<close>

datatype error = Errno errno | Errorf string "string list" "error list"

text \<open>An opened \<open>*evdev.InputDevice\<close>: the name the device reports and its path.\<close>

record InputDevice =
  DevName :: string
  Fn :: string

datatype message =
    Banner
  | Detecting
  | FoundTrackball string string
  | MultipleFound
  | Candidate nat string
  | UsingFirst string
  | DeviceLine string float64 "64 word"
  | Ready string
  | Stopped
  | Fatal error

text \<open>What the program does to the outside world, in order.\<close>

datatype action =
    Print message
  | EvdevOpen string
  | FileClose string
  | Grab string errno
  | Release string
  | SysOpen string
  | IoctlVal int nat nat errno
  | IoctlSetup int nat UinputSetup errno
  | SysClose int
  | SysWrite int InputEvent errno
  | Sleep nat

text \<open>
  The environment: what the platform and the kernel answer. \<open>conv\<close> is the
  implementation-dependent result of an out-of-range \<open>float64\<close> to \<open>int32\<close>
  conversion; \<open>unicodeLower\<close> the standard library's lower-casing of a string that
  has a byte outside ASCII; \<open>clock\<close> the Unix time read and \<open>syserr\<close> the errno (0 for success)
  of the system call issued after \<open>k\<close> earlier actions; \<open>nodes\<close> the name of the
  device node at a path, or the errno with which opening it fails; \<open>uinput\<close> the
  descriptor that opening /dev/uinput returns, or its errno. \<open>trace\<close> records the
  actions performed so far.
\<close>

record world =
  conv :: "float64 \<Rightarrow> int32"
  unicodeLower :: "string \<Rightarrow> string"
  clock :: "nat \<Rightarrow> int"
  syserr :: "nat \<Rightarrow> errno"
  nodes :: "string \<Rightarrow> errno + string"
  uinput :: "errno + nat"
  trace :: "action list"

definition act :: "action \<Rightarrow> world \<Rightarrow> world" where
  "act a w = w\<lparr>trace := trace w @ [a]\<rparr>"

text \<open>A system call whose errno the environment decides, recorded with that errno.\<close>

definition sys :: "(errno \<Rightarrow> action) \<Rightarrow> world \<Rightarrow> errno \<times> world" where
  "sys a w = (let en = syserr w (length (trace w)) in (en, act (a en) w))"

section \<open>The scroller\<close>

record TrackballScroller =
  device :: "InputDevice option"
  virtualFd :: int
  sensitivity :: float64
  deadZone :: int32

text \<open>The loop of \<open>sendScrollEvent\<close> over its two records, returning at the first failed write.\<close>

fun writeEvents :: "int \<Rightarrow> InputEvent list \<Rightarrow> world \<Rightarrow> error option \<times> world" where
  "writeEvents fd [] w = (None, w)"
| "writeEvents fd (event # events) w =
     (case sys (SysWrite fd event) w of
        (en, w') \<Rightarrow>
          if en \<noteq> 0 then (Some (Errorf ''failed to write event: %w'' [] [Errno en]), w')
          else writeEvents fd events w')"

definition sendScrollEvent ::
  "TrackballScroller \<Rightarrow> bool \<Rightarrow> int32 \<Rightarrow> world \<Rightarrow> error option \<times> world" where
  "sendScrollEvent ts isHorizontal val w =
     (let code = (if isHorizontal then REL_HWHEEL else REL_WHEEL);
          now = clock w (length (trace w));
          events =
            [\<lparr>Time = \<lparr>Sec = now, Usec = 0\<rparr>, Type = EV_REL, Code = code, Value = val\<rparr>,
             \<lparr>Time = \<lparr>Sec = now, Usec = 0\<rparr>, Type = EV_SYN, Code = SYN_REPORT, Value = 0\<rparr>]
      in writeEvents (virtualFd ts) events w)"

text \<open>\<open>close\<close>: the results of the ioctl, of the close and of the release are ignored.\<close>

definition close :: "TrackballScroller \<Rightarrow> world \<Rightarrow> world" where
  "close ts w =
     (let w1 = (if 0 \<le> virtualFd ts
                then act (SysClose (virtualFd ts))
                       (snd (sys (IoctlVal (virtualFd ts) UI_DEV_DESTROY 0) w))
                else w)
      in case device ts of
           None \<Rightarrow> w1
         | Some d \<Rightarrow> act (Release (Fn d)) w1)"

definition abs_int32 :: "int32 \<Rightarrow> int32" where
  "abs_int32 x = (if sint x < 0 then - x else x)"

text \<open>
  The body of the loop of \<open>handleEvents\<close> for one event; \<open>continue\<close> leaves the world
  as it is. The error that \<open>sendScrollEvent\<close> returns is dropped, as in the source.
\<close>

definition handleEvent :: "TrackballScroller \<Rightarrow> InputEvent \<Rightarrow> world \<Rightarrow> world" where
  "handleEvent ts event w =
     (if Type event \<noteq> evdev_EV_REL then w
      else if Code event = evdev_REL_X then
        (let isHorizontal = True;
             scrollValue =
               int32_of_float64 (conv w) (float64_mul (float64_of_int32 (Value event)) (sensitivity ts))
         in if sint (deadZone ts) < sint (abs_int32 (Value event)) \<and> scrollValue \<noteq> 0
            then snd (sendScrollEvent ts isHorizontal scrollValue w) else w)
      else if Code event = evdev_REL_Y then
        (let isHorizontal = False;
             scrollValue =
               - int32_of_float64 (conv w) (float64_mul (float64_of_int32 (Value event)) (sensitivity ts))
         in if sint (deadZone ts) < sint (abs_int32 (Value event)) \<and> scrollValue \<noteq> 0
            then snd (sendScrollEvent ts isHorizontal scrollValue w) else w)
      else w)"

fun handleEvents :: "TrackballScroller \<Rightarrow> InputEvent list \<Rightarrow> world \<Rightarrow> world" where
  "handleEvents ts [] w = w"
| "handleEvents ts (event # events) w = handleEvents ts events (handleEvent ts event w)"

text \<open>
  One turn of the loop of \<open>processEvents\<close>, as the environment decides it: the stop
  channel is found closed at the top of the loop, or it is not and the blocking read
  returns an error or a batch of events. The list of turns is what the environment
  supplies; when it is used up the read blocks for ever and \<open>processEvents\<close> does not
  return, which is the result \<open>None\<close>.
\<close>

datatype turn = StopClosed | DeviceRead "error + InputEvent list"

fun processEvents ::
  "TrackballScroller \<Rightarrow> turn list \<Rightarrow> world \<Rightarrow> (error option \<times> world) option" where
  "processEvents ts [] w = None"
| "processEvents ts (StopClosed # turns) w = Some (None, w)"
| "processEvents ts (DeviceRead (Inl err) # turns) w =
     Some (Some (Errorf ''error reading events: %w'' [] [err]), w)"
| "processEvents ts (DeviceRead (Inr events) # turns) w =
     processEvents ts turns (handleEvents ts events w)"

text \<open>
  The scroll commands a trace shows: every write of a relative-motion record is the
  first write of one call of \<open>sendScrollEvent\<close>, and carries the axis (the code is
  \<open>REL_HWHEEL\<close> for a horizontal command) and the magnitude of the command.
\<close>

fun scrollCommand :: "action \<Rightarrow> (bool \<times> int32) list" where
  "scrollCommand (SysWrite fd ev en) =
     (if Type ev = EV_REL then [(Code ev = REL_HWHEEL, Value ev)] else [])"
| "scrollCommand a = []"

definition commands :: "world \<Rightarrow> (bool \<times> int32) list" where
  "commands w = concat (map scrollCommand (trace w))"

section \<open>Device discovery\<close>

definition trackballKeywords :: "string list" where
  "trackballKeywords = [''trackball'', ''expert mouse'', ''orbit'', ''slimblade'']"

text \<open>
  \<open>strings.ToLower\<close>: a string of ASCII bytes has its letters A to Z mapped to a to z;
  any other string goes through the Unicode mapping \<open>lower\<close> of the standard library.
\<close>

definition asciiLower :: "char \<Rightarrow> char" where
  "asciiLower c =
     (let n = (of_char c :: nat) in if 65 \<le> n \<and> n \<le> 90 then char_of (n + 32) else c)"

definition ToLower :: "(string \<Rightarrow> string) \<Rightarrow> string \<Rightarrow> string" where
  "ToLower lower s =
     (if list_all (\<lambda>c. (of_char c :: nat) < 128) s then map asciiLower s else lower s)"

text \<open>\<open>strings.Contains\<close>: \<open>substr\<close> starts at some position of \<open>s\<close>.\<close>

fun Contains :: "string \<Rightarrow> string \<Rightarrow> bool" where
  "Contains [] substr = (substr = [])"
| "Contains (c # s) substr = (prefix substr (c # s) \<or> Contains s substr)"

text \<open>The loop of \<open>isTrackballDevice\<close> over the keywords.\<close>

fun matchKeywords :: "string \<Rightarrow> string list \<Rightarrow> bool" where
  "matchKeywords name [] = False"
| "matchKeywords name (keyword # keywords) =
     (if Contains name keyword then True else matchKeywords name keywords)"

definition isTrackballDevice :: "(string \<Rightarrow> string) \<Rightarrow> string \<Rightarrow> bool" where
  "isTrackballDevice lower deviceName =
     (let name = ToLower lower deviceName in matchKeywords name trackballKeywords)"

text \<open>The decimal digits that \<open>%d\<close> prints for a number that is not negative.\<close>

fun decimal :: "nat \<Rightarrow> string" where
  "decimal n =
     (if n < 10 then [char_of (48 + n)] else decimal (n div 10) @ [char_of (48 + n mod 10)])"

declare decimal.simps [simp del]

definition devicePathOf :: "nat \<Rightarrow> string" where
  "devicePathOf i = ''/dev/input/event'' @ decimal i"

text \<open>\<open>evdev.Open\<close>: the opened device, or the errno of the failure.\<close>

definition evdev_Open :: "string \<Rightarrow> world \<Rightarrow> (errno + InputDevice) \<times> world" where
  "evdev_Open path w =
     (case nodes w path of
        Inl en \<Rightarrow> (Inl en, act (EvdevOpen path) w)
      | Inr name \<Rightarrow> (Inr \<lparr>DevName = name, Fn = path\<rparr>, act (EvdevOpen path) w))"

text \<open>The body of the loop of \<open>findTrackballDevices\<close> for the node \<open>i\<close>.\<close>

definition scanNode :: "nat \<Rightarrow> string list \<times> world \<Rightarrow> string list \<times> world" where
  "scanNode i st =
     (case st of
        (trackballPaths, w) \<Rightarrow>
          (let devicePath = devicePathOf i in
           case evdev_Open devicePath w of
             (Inl err, w1) \<Rightarrow> (trackballPaths, w1)
           | (Inr dev, w1) \<Rightarrow>
               (if isTrackballDevice (unicodeLower w1) (DevName dev)
                then (trackballPaths @ [devicePath],
                      act (FileClose devicePath)
                        (act (Print (FoundTrackball (DevName dev) devicePath)) w1))
                else (trackballPaths, act (FileClose devicePath) w1))))"

definition findTrackballDevices :: "world \<Rightarrow> (string list \<times> error option) \<times> world" where
  "findTrackballDevices w =
     (case foldl (\<lambda>st i. scanNode i st) ([], w) [0..<MAX_EVENT_DEVICES] of
        (trackballPaths, w') \<Rightarrow> ((trackballPaths, None), w'))"

text \<open>
  The node \<open>i\<close> is a trackball: it opens and its name is classified as a trackball.
\<close>

definition isTrackballNode :: "world \<Rightarrow> nat \<Rightarrow> bool" where
  "isTrackballNode w i =
     (case nodes w (devicePathOf i) of
        Inl en \<Rightarrow> False
      | Inr name \<Rightarrow> isTrackballDevice (unicodeLower w) name)"

text \<open>The loop of \<open>selectDevice\<close> that lists the candidates, numbered from \<open>i + 1\<close>.\<close>

fun printCandidates :: "nat \<Rightarrow> string list \<Rightarrow> world \<Rightarrow> world" where
  "printCandidates i [] w = w"
| "printCandidates i (path # paths) w =
     printCandidates (i + 1) paths (act (Print (Candidate (i + 1) path)) w)"

definition selectDevice :: "string \<Rightarrow> world \<Rightarrow> (error + string) \<times> world" where
  "selectDevice devicePath w =
     (if devicePath \<noteq> ''auto'' then (Inr devicePath, w)
      else
        (case findTrackballDevices (act (Print Detecting) w) of
           ((trackballs, Some err), w1) \<Rightarrow>
             (Inl (Errorf ''failed to scan for devices: %w'' [] [err]), w1)
         | ((trackballs, None), w1) \<Rightarrow>
             (case trackballs of
                [] \<Rightarrow>
                  (Inl (Errorf
                     ''no trackball devices found. Try to manually add a device with -device''
                     [] []), w1)
              | first # others \<Rightarrow>
                  (if length trackballs > 1
                   then (Inr first,
                         act (Print (UsingFirst first))
                           (printCandidates 0 trackballs (act (Print MultipleFound) w1)))
                   else (Inr first, w1)))))"

section \<open>Set-up of the two devices\<close>

definition openTrackballDevice :: "string \<Rightarrow> world \<Rightarrow> (error + InputDevice) \<times> world" where
  "openTrackballDevice devicePath w =
     (case evdev_Open devicePath w of
        (Inl en, w1) \<Rightarrow>
          (Inl (Errorf ''failed to open device %s: %w'' [devicePath] [Errno en]), w1)
      | (Inr dev, w1) \<Rightarrow>
          (case sys (Grab devicePath) w1 of
             (en, w2) \<Rightarrow>
               if en \<noteq> 0
               then (Inl (Errorf ''failed to grab device %s: %w'' [devicePath] [Errno en]), w2)
               else (Inr dev, w2)))"

text \<open>The loop of \<open>configureDevice\<close> over the capabilities (request, value, name).\<close>

fun setCapabilities :: "int \<Rightarrow> (nat \<times> nat \<times> string) list \<Rightarrow> world \<Rightarrow> error option \<times> world" where
  "setCapabilities fd [] w = (None, w)"
| "setCapabilities fd ((cmd, val, name) # caps) w =
     (case sys (IoctlVal fd cmd val) w of
        (en, w') \<Rightarrow>
          if en \<noteq> 0 then (Some (Errorf ''failed to set %s: %v'' [name] [Errno en]), w')
          else setCapabilities fd caps w')"

definition configureDevice :: "int \<Rightarrow> world \<Rightarrow> error option \<times> world" where
  "configureDevice fd w =
     (let capabilities =
            [(UI_SET_EVBIT, unat EV_REL, ''EV_REL''),
             (UI_SET_RELBIT, unat REL_WHEEL, ''REL_WHEEL''),
             (UI_SET_RELBIT, unat REL_HWHEEL, ''REL_HWHEEL''),
             (UI_SET_EVBIT, unat EV_SYN, ''EV_SYN'')]
      in setCapabilities fd capabilities w)"

definition setupDevice :: "int \<Rightarrow> world \<Rightarrow> error option \<times> world" where
  "setupDevice fd w =
     (let label = ''Trackball Scroll Device'';
          setup =
            \<lparr>ID = \<lparr>Bustype = 0x03, Vendor = 0x1234, Product = 0x5678, Version = 1\<rparr>,
             Name = label @ replicate (UINPUT_MAX_NAME_SIZE - length label) (char_of (0 :: nat))\<rparr>
      in case sys (IoctlSetup fd UI_DEV_SETUP setup) w of
           (en, w') \<Rightarrow>
             if en \<noteq> 0 then (Some (Errorf ''failed to setup device: %v'' [] [Errno en]), w')
             else (None, w'))"

definition createDevice :: "int \<Rightarrow> world \<Rightarrow> error option \<times> world" where
  "createDevice fd w =
     (case sys (IoctlVal fd UI_DEV_CREATE 0) w of
        (en, w') \<Rightarrow>
          if en \<noteq> 0 then (Some (Errorf ''failed to create device: %v'' [] [Errno en]), w')
          else (None, w'))"

definition createScrollOnlyDevice :: "world \<Rightarrow> (int \<times> error option) \<times> world" where
  "createScrollOnlyDevice w =
     (let w0 = act (SysOpen ''/dev/uinput'') w in
      case uinput w0 of
        Inl en \<Rightarrow> ((- 1, Some (Errorf ''failed to open /dev/uinput: %w'' [] [Errno en])), w0)
      | Inr n \<Rightarrow>
          (let fd = int n in
           case configureDevice fd w0 of
             (Some err, w1) \<Rightarrow> ((- 1, Some err), act (SysClose fd) w1)
           | (None, w1) \<Rightarrow>
               (case setupDevice fd w1 of
                  (Some err, w2) \<Rightarrow> ((- 1, Some err), act (SysClose fd) w2)
                | (None, w2) \<Rightarrow>
                    (case createDevice fd w2 of
                       (Some err, w3) \<Rightarrow> ((- 1, Some err), act (SysClose fd) w3)
                     | (None, w3) \<Rightarrow> ((fd, None), act (Sleep DEVICE_SETUP_DELAY) w3)))))"

definition newTrackballScroller ::
  "InputDevice \<Rightarrow> float64 \<Rightarrow> int32 \<Rightarrow> world \<Rightarrow> (error + TrackballScroller) \<times> world" where
  "newTrackballScroller dev sens dz w =
     (case createScrollOnlyDevice w of
        ((fd, Some err), w') \<Rightarrow>
          (Inl (Errorf ''cannot create virtual device: %w'' [] [err]), w')
      | ((fd, None), w') \<Rightarrow>
          (Inr \<lparr>device = Some dev, virtualFd = fd, sensitivity = sens, deadZone = dz\<rparr>, w'))"

section \<open>The program\<close>

text \<open>
  \<open>main\<close>, from the parsed flags, the turns of the event loop and the environment, to
  the exit status and the final world; \<open>None\<close> when the program never exits.
  \<open>log.Fatal\<close> and \<open>log.Fatalf\<close> print and call \<open>os.Exit(1)\<close>, which ends the
  process at once: a deferred call does not run. The deferred \<open>scroller.close()\<close>
  runs when \<open>main\<close> returns. \<open>int32(*deadZone)\<close> keeps the low 32 bits.
\<close>

definition main ::
  "float64 \<Rightarrow> 64 word \<Rightarrow> string \<Rightarrow> turn list \<Rightarrow> world \<Rightarrow> (nat \<times> world) option" where
  "main sens dz devicePath turns w =
     (case selectDevice devicePath (act (Print Banner) w) of
        (Inl err, w1) \<Rightarrow> Some (1, act (Print (Fatal err)) w1)
      | (Inr finalDevicePath, w1) \<Rightarrow>
          (case openTrackballDevice finalDevicePath
                  (act (Print (DeviceLine finalDevicePath sens dz)) w1) of
             (Inl err, w2) \<Rightarrow>
               Some (1, act (Print (Fatal (Errorf ''Failed to open device: %v'' [] [err]))) w2)
           | (Inr dev, w2) \<Rightarrow>
               (case newTrackballScroller dev sens (ucast dz) w2 of
                  (Inl err, w3) \<Rightarrow>
                    Some (1, act (Print (Fatal (Errorf ''Failed to create scroller: %v'' [] [err]))) w3)
                | (Inr scroller, w3) \<Rightarrow>
                    (case processEvents scroller turns (act (Print (Ready (DevName dev))) w3) of
                       None \<Rightarrow> None
                     | Some (Some err, w4) \<Rightarrow>
                         Some (1, act (Print (Fatal (Errorf ''Error processing events: %v'' [] [err]))) w4)
                     | Some (None, w4) \<Rightarrow>
                         Some (0, close scroller (act (Print Stopped) w4))))))"

section \<open>Example inputs\<close>

text \<open>
  An environment in which every system call succeeds, the clock reads 0, the node
  /dev/input/event3 is a Kensington Expert Mouse and no other node opens,
  /dev/uinput opens as descriptor 4, and an out-of-range conversion gives the
  minimum \<open>int32\<close>.
\<close>

definition quietWorld :: world where
  "quietWorld =
     \<lparr>conv = (\<lambda>x. - 2147483648),
      unicodeLower = (\<lambda>s. s),
      clock = (\<lambda>k. 0),
      syserr = (\<lambda>k. 0),
      nodes = (\<lambda>p. if p = ''/dev/input/event3'' then Inr ''Kensington Expert Mouse'' else Inl 2),
      uinput = Inr 4,
      trace = []\<rparr>"

text \<open>The sensitivities 0.3 (the default, as the nearest \<open>float64\<close>), 1.0 and 2.0.\<close>

definition sens03 :: float64 where "sens03 = Finite False 5404319552844595 (- 54)"
definition sens1 :: float64 where "sens1 = Finite False 1 0"
definition sens2 :: float64 where "sens2 = Finite False 1 1"

definition scrollerWith :: "float64 \<Rightarrow> int32 \<Rightarrow> TrackballScroller" where
  "scrollerWith sens dz =
     \<lparr>device = Some \<lparr>DevName = ''Kensington Expert Mouse'', Fn = ''/dev/input/event3''\<rparr>,
      virtualFd = 4, sensitivity = sens, deadZone = dz\<rparr>"

text \<open>A relative-motion sample of the evdev package with the given code and value.\<close>

definition motion :: "uint16 \<Rightarrow> int32 \<Rightarrow> InputEvent" where
  "motion c v = \<lparr>Time = \<lparr>Sec = 0, Usec = 0\<rparr>, Type = evdev_EV_REL, Code = c, Value = v\<rparr>"

section \<open>Properties\<close>

subsection \<open>Evaluation of the float64 model\<close>

lemma bit_length_0 [simp]: "bit_length 0 = 0"
  by (simp add: bit_length.simps)

lemma bit_length_1 [simp]: "bit_length (Suc 0) = 1" "bit_length 1 = 1"
  by (simp_all add: bit_length.simps [of 1] bit_length.simps [of "Suc 0"])

lemma bit_length_Bit0 [simp]: "bit_length (numeral (Num.Bit0 n)) = Suc (bit_length (numeral n))"
  by (subst bit_length.simps) (simp add: numeral_Bit0_div_2)

lemma bit_length_Bit1 [simp]: "bit_length (numeral (Num.Bit1 n)) = Suc (bit_length (numeral n))"
  by (subst bit_length.simps) (simp add: numeral_Bit1_div_2)

lemmas float64_eval =
  float64_of_int32_def roundFloat64_def int32_of_float64_def truncFloat64_def Let_def

lemma bit_length_le: "n < 2 ^ k \<Longrightarrow> bit_length n \<le> k"
proof (induction k arbitrary: n)
  case 0
  then show ?case by simp
next
  case (Suc k)
  show ?case
  proof (cases "n = 0")
    case True
    then show ?thesis by simp
  next
    case False
    from Suc.prems have "n div 2 < 2 ^ k" by simp
    then have "bit_length (n div 2) \<le> k" by (rule Suc.IH)
    with False show ?thesis by (subst bit_length.simps) simp
  qed
qed

text \<open>With the sensitivity 1.0 the scaled magnitude is the raw magnitude.\<close>

lemma unit_sensitivity:
  "int32_of_float64 c (float64_mul (float64_of_int32 v) sens1) = v"
proof -
  have "nat \<bar>sint v\<bar> < 2 ^ 32"
    using sint_ge [of v] sint_lt [of v] by simp
  then have "bit_length (nat \<bar>sint v\<bar>) \<le> 32"
    by (rule bit_length_le)
  moreover have "- (2 ^ 31) \<le> sint v" "sint v < 2 ^ 31"
    using sint_ge [of v] sint_lt [of v] by simp_all
  ultimately show ?thesis
    by (simp add: sens1_def float64_eval max_def)
qed

subsection \<open>The trace\<close>

lemma act_fields [simp]:
  "trace (act a w) = trace w @ [a]"
  "conv (act a w) = conv w"
  "unicodeLower (act a w) = unicodeLower w"
  "clock (act a w) = clock w"
  "syserr (act a w) = syserr w"
  "nodes (act a w) = nodes w"
  "uinput (act a w) = uinput w"
  by (simp_all add: act_def)

lemma sys_eq: "sys a w = (syserr w (length (trace w)), act (a (syserr w (length (trace w)))) w)"
  by (simp add: sys_def Let_def)

lemma commands_act [simp]: "commands (act a w) = commands w @ scrollCommand a"
  by (simp add: commands_def)

lemma sendScrollEvent_cases:
  "sendScrollEvent ts h v w =
     (let k = length (trace w);
          fd = virtualFd ts;
          now = \<lparr>Sec = clock w k, Usec = 0\<rparr>;
          rel = \<lparr>Time = now, Type = EV_REL,
                 Code = (if h then REL_HWHEEL else REL_WHEEL), Value = v\<rparr>;
          syn = \<lparr>Time = now, Type = EV_SYN, Code = SYN_REPORT, Value = 0\<rparr>;
          e1 = syserr w k;
          e2 = syserr w (Suc k)
      in if e1 \<noteq> 0 then
           (Some (Errorf ''failed to write event: %w'' [] [Errno e1]), act (SysWrite fd rel e1) w)
         else if e2 \<noteq> 0 then
           (Some (Errorf ''failed to write event: %w'' [] [Errno e2]),
            act (SysWrite fd syn e2) (act (SysWrite fd rel 0) w))
         else (None, act (SysWrite fd syn 0) (act (SysWrite fd rel 0) w)))"
  by (simp add: sendScrollEvent_def sys_eq Let_def)

lemma commands_send:
  "commands (snd (sendScrollEvent ts h v w)) = commands w @ [(h, v)]"
  by (simp add: sendScrollEvent_cases Let_def EV_REL_def EV_SYN_def REL_HWHEEL_def REL_WHEEL_def)

lemma conv_send [simp]: "conv (snd (sendScrollEvent ts h v w)) = conv w"
  by (simp add: sendScrollEvent_cases Let_def)

subsection \<open>abs\<close>

lemma abs_int32_min: "abs_int32 (- 2147483648) = - 2147483648"
  by (simp add: abs_int32_def)

lemma sint_not_less_min: "\<not> sint (d :: int32) < - 2147483648"
  using sint_ge [of d] by simp

lemma sint_neg:
  assumes "sint (v :: int32) \<noteq> - 2147483648"
  shows "sint (- v) = - sint v"
proof -
  have "- 2147483648 \<le> sint v" "sint v < 2147483648"
    using sint_ge [of v] sint_lt [of v] by simp_all
  with assms have "- (2 ^ 31) \<le> - sint v \<and> - sint v < 2 ^ 31"
    by simp
  then show ?thesis
    by (simp add: sint_word_minus signed_take_bit_int_eq_self)
qed

lemma sint_min_iff: "(sint (v :: int32) = - 2147483648) = (v = - 2147483648)"
proof
  assume "sint v = - 2147483648"
  then have "word_of_int (sint v) = (word_of_int (- 2147483648) :: int32)"
    by simp
  then show "v = - 2147483648"
    by simp
next
  assume "v = - 2147483648"
  then show "sint v = - 2147483648"
    by simp
qed


subsection \<open>One sample\<close>

lemma handleEvent_commands:
  "commands (handleEvent ts ev w) = commands w @
     (let scaled = int32_of_float64 (conv w)
                     (float64_mul (float64_of_int32 (Value ev)) (sensitivity ts))
      in if Type ev = evdev_EV_REL \<and> (Code ev = evdev_REL_X \<or> Code ev = evdev_REL_Y) \<and>
            sint (deadZone ts) < sint (abs_int32 (Value ev)) \<and> scaled \<noteq> 0
         then [(Code ev = evdev_REL_X, if Code ev = evdev_REL_X then scaled else - scaled)]
         else [])"
  by (simp add: handleEvent_def Let_def commands_send evdev_REL_X_def evdev_REL_Y_def)

lemma handleEvent_min: "handleEvent ts (ev\<lparr>Value := - 2147483648\<rparr>) w = w"
  by (simp add: handleEvent_def Let_def abs_int32_min sint_not_less_min)


lemma commands_quietWorld [simp]:
  "commands quietWorld = []" "commands (quietWorld\<lparr>conv := c\<rparr>) = []"
  by (simp_all add: commands_def quietWorld_def)

lemma quietWorld_conv [simp]:
  "conv quietWorld = (\<lambda>x. - 2147483648)" "conv (quietWorld\<lparr>conv := c\<rparr>) = c"
  by (simp_all add: quietWorld_def)

lemma scrollerWith_fields [simp]:
  "sensitivity (scrollerWith s d) = s" "deadZone (scrollerWith s d) = d"
  "virtualFd (scrollerWith s d) = 4"
  by (simp_all add: scrollerWith_def)

lemma motion_fields [simp]:
  "Type (motion c v) = evdev_EV_REL" "Code (motion c v) = c" "Value (motion c v) = v"
  by (simp_all add: motion_def)

lemma motion_update [simp]:
  "(motion c v)\<lparr>Type := evdev_EV_REL, Code := c'\<rparr> = motion c' v"
  by (simp add: motion_def)




text \<open>
  Claim C2, as amended. A vertical sample produces a command exactly when the
  horizontal sample of the same raw magnitude does, and its magnitude is the 32-bit
  wrap-around negation of the horizontal one: the arithmetic negation, except that a
  horizontal magnitude of -2147483648 gives the vertical magnitude -2147483648.
\<close>

theorem vertical_negates_horizontal:
  "let scaled = int32_of_float64 (conv w)
                  (float64_mul (float64_of_int32 (Value ev)) (sensitivity ts));
       emitted = (sint (deadZone ts) < sint (abs_int32 (Value ev)) \<and> scaled \<noteq> 0)
   in commands (handleEvents ts [ev\<lparr>Type := evdev_EV_REL, Code := evdev_REL_X\<rparr>] w) =
        commands w @ (if emitted then [(True, scaled)] else []) \<and>
      commands (handleEvents ts [ev\<lparr>Type := evdev_EV_REL, Code := evdev_REL_Y\<rparr>] w) =
        commands w @ (if emitted then [(False, - scaled)] else []) \<and>
      (if scaled = - 2147483648 then - scaled = scaled else sint (- scaled) = - sint scaled)"
  by (simp add: handleEvent_commands Let_def sint_neg sint_min_iff evdev_REL_X_def evdev_REL_Y_def)

text \<open>
  The example of the specification: raw 10, sensitivity 1.0, dead zone 0 gives
  (horizontal, 10) and (vertical, -10).
\<close>

theorem vertical_negates_horizontal_witness:
  "commands (handleEvents (scrollerWith sens1 0) [motion evdev_REL_X 10] quietWorld) = [(True, 10)] \<and>
   commands (handleEvents (scrollerWith sens1 0) [motion evdev_REL_Y 10] quietWorld) = [(False, - 10)]"
  using vertical_negates_horizontal [of quietWorld "motion evdev_REL_X 10" "scrollerWith sens1 0"]
  by (simp add: sens1_def float64_eval abs_int32_def)

text \<open>
  Claim C2 as stated fails for the raw magnitude \<open>-2^30\<close> with sensitivity 2.0: the
  horizontal and the vertical command both carry -2147483648.
\<close>

theorem vertical_negation_counterexample:
  "commands (handleEvents (scrollerWith sens2 2) [motion evdev_REL_X (- 1073741824)] quietWorld)
     = [(True, - 2147483648)] \<and>
   commands (handleEvents (scrollerWith sens2 2) [motion evdev_REL_Y (- 1073741824)] quietWorld)
     = [(False, - 2147483648)] \<and>
   sint (- 2147483648 :: int32) = - 2147483648"
  by (simp add: handleEvent_commands sens2_def float64_eval abs_int32_def
      evdev_REL_X_def evdev_REL_Y_def)

text \<open>
  Claim C10. For the raw magnitude -2147483648 the helper \<open>abs\<close> overflows and returns
  -2147483648, a negative number, which no dead zone is below; such a sample leaves the
  world as it is, whatever its category and code, the dead zone and the sensitivity.
\<close>

theorem abs_min_int32_never_emits:
  "abs_int32 (- 2147483648) = - 2147483648 \<and>
   sint (abs_int32 (- 2147483648)) < 0 \<and>
   \<not> sint (deadZone ts) < sint (abs_int32 (- 2147483648)) \<and>
   handleEvents ts [ev\<lparr>Value := - 2147483648\<rparr>] w = w"
  by (simp add: abs_int32_min sint_not_less_min handleEvent_min)

subsection \<open>Emission\<close>

lemma act_eq: "act a w = w\<lparr>trace := trace w @ [a]\<rparr>"
  by (simp add: act_def)

text \<open>
  Claim C5. One call of \<open>sendScrollEvent\<close> writes, to the virtual descriptor and in
  this order, a relative-motion record with the code of the axis and the signed
  magnitude, then a synchronization report record with value zero; both carry the
  same time. When both writes succeed the call returns no error and exactly these two
  writes were made. When the first write fails the call returns the error at once,
  after that single write; when the second fails it returns the error after the two
  writes. No write is repeated.
\<close>

theorem sendScrollEvent_two_records:
  "let k = length (trace w);
       fd = virtualFd ts;
       now = \<lparr>Sec = clock w k, Usec = 0\<rparr>;
       rel = \<lparr>Time = now, Type = EV_REL,
              Code = (if isHorizontal then REL_HWHEEL else REL_WHEEL), Value = v\<rparr>;
       syn = \<lparr>Time = now, Type = EV_SYN, Code = SYN_REPORT, Value = 0\<rparr>;
       e1 = syserr w k;
       e2 = syserr w (Suc k)
   in (e1 = 0 \<and> e2 = 0 \<longrightarrow>
         sendScrollEvent ts isHorizontal v w =
           (None, w\<lparr>trace := trace w @ [SysWrite fd rel 0, SysWrite fd syn 0]\<rparr>)) \<and>
      (e1 \<noteq> 0 \<longrightarrow>
         sendScrollEvent ts isHorizontal v w =
           (Some (Errorf ''failed to write event: %w'' [] [Errno e1]),
            w\<lparr>trace := trace w @ [SysWrite fd rel e1]\<rparr>)) \<and>
      (e1 = 0 \<and> e2 \<noteq> 0 \<longrightarrow>
         sendScrollEvent ts isHorizontal v w =
           (Some (Errorf ''failed to write event: %w'' [] [Errno e2]),
            w\<lparr>trace := trace w @ [SysWrite fd rel 0, SysWrite fd syn e2]\<rparr>))"
  by (simp add: sendScrollEvent_cases Let_def act_eq)

text \<open>
  A horizontal command of magnitude 5 with both writes succeeding, and a vertical one
  with the first, respectively the second, write failing with errno 5.
\<close>

theorem sendScrollEvent_two_records_witness:
  "sendScrollEvent (scrollerWith sens1 0) True 5 quietWorld =
     (None, quietWorld\<lparr>trace :=
        [SysWrite 4 \<lparr>Time = \<lparr>Sec = 0, Usec = 0\<rparr>, Type = 2, Code = 6, Value = 5\<rparr> 0,
         SysWrite 4 \<lparr>Time = \<lparr>Sec = 0, Usec = 0\<rparr>, Type = 0, Code = 0, Value = 0\<rparr> 0]\<rparr>) \<and>
   sendScrollEvent (scrollerWith sens1 0) False 5 (quietWorld\<lparr>syserr := (\<lambda>k. 5)\<rparr>) =
     (Some (Errorf ''failed to write event: %w'' [] [Errno 5]),
      quietWorld\<lparr>syserr := (\<lambda>k. 5), trace :=
        [SysWrite 4 \<lparr>Time = \<lparr>Sec = 0, Usec = 0\<rparr>, Type = 2, Code = 8, Value = 5\<rparr> 5]\<rparr>) \<and>
   sendScrollEvent (scrollerWith sens1 0) False 5
       (quietWorld\<lparr>syserr := (\<lambda>k. if k = 1 then 5 else 0)\<rparr>) =
     (Some (Errorf ''failed to write event: %w'' [] [Errno 5]),
      quietWorld\<lparr>syserr := (\<lambda>k. if k = 1 then 5 else 0), trace :=
        [SysWrite 4 \<lparr>Time = \<lparr>Sec = 0, Usec = 0\<rparr>, Type = 2, Code = 8, Value = 5\<rparr> 0,
         SysWrite 4 \<lparr>Time = \<lparr>Sec = 0, Usec = 0\<rparr>, Type = 0, Code = 0, Value = 0\<rparr> 5]\<rparr>)"
  using sendScrollEvent_two_records [of quietWorld "scrollerWith sens1 0" True 5]
    sendScrollEvent_two_records [of "quietWorld\<lparr>syserr := (\<lambda>k. 5)\<rparr>" "scrollerWith sens1 0" False 5]
    sendScrollEvent_two_records [of "quietWorld\<lparr>syserr := (\<lambda>k. if k = 1 then 5 else 0)\<rparr>"
      "scrollerWith sens1 0" False 5]
  by (simp add: Let_def quietWorld_def EV_REL_def EV_SYN_def SYN_REPORT_def REL_HWHEEL_def
      REL_WHEEL_def)

subsection \<open>Tear-down\<close>

text \<open>
  Claim C7. \<open>close\<close> on a scroller whose descriptor is negative issues neither the
  destroy request nor the close of the descriptor; on a scroller whose physical device
  is nil it issues no release; with both it does nothing at all. \<open>close\<close> is a total
  function that returns the world: none of its branches is a fault.
\<close>

theorem close_guarded:
  "(virtualFd ts < 0 \<longrightarrow>
      close ts w = (case device ts of None \<Rightarrow> w | Some d \<Rightarrow> act (Release (Fn d)) w)) \<and>
   (device ts = None \<longrightarrow>
      close ts w =
        (if 0 \<le> virtualFd ts
         then act (SysClose (virtualFd ts))
                (act (IoctlVal (virtualFd ts) UI_DEV_DESTROY 0 (syserr w (length (trace w)))) w)
         else w)) \<and>
   (virtualFd ts < 0 \<and> device ts = None \<longrightarrow> close ts w = w)"
  by (simp add: close_def sys_eq Let_def)

text \<open>A scroller that was never activated: descriptor -1 and no device.\<close>

theorem close_guarded_witness:
  "close \<lparr>device = None, virtualFd = - 1, sensitivity = sens03, deadZone = 2\<rparr> quietWorld
     = quietWorld"
  using close_guarded [of "\<lparr>device = None, virtualFd = - 1, sensitivity = sens03, deadZone = 2\<rparr>"
      quietWorld]
  by simp

subsection \<open>The event loop\<close>

lemma processEvents_batches:
  "processEvents ts (map (\<lambda>b. DeviceRead (Inr b)) batches @ turns) w =
     processEvents ts turns (foldl (\<lambda>w b. handleEvents ts b w) w batches)"
  by (induction batches arbitrary: w) simp_all

text \<open>
  Claim C6. When the stop channel is found closed at the top of the loop, after any
  number of completed read, translate and emit turns, \<open>processEvents\<close> returns without
  an error and the world is the one those completed turns left: nothing of what the
  environment would supply next is read or emitted. \<open>main\<close> then prints that the
  scroller stopped, runs the deferred \<open>close\<close> and exits with status 0.
\<close>

theorem processEvents_stop:
  "processEvents ts (map (\<lambda>b. DeviceRead (Inr b)) batches @ StopClosed # turns) w =
     Some (None, foldl (\<lambda>w b. handleEvents ts b w) w batches) \<and>
   (selectDevice path (act (Print Banner) w) = (Inr p, w1) \<and>
    openTrackballDevice p (act (Print (DeviceLine p sens dz)) w1) = (Inr dev, w2) \<and>
    newTrackballScroller dev sens (ucast dz) w2 = (Inr ts, w3) \<longrightarrow>
    main sens dz path (map (\<lambda>b. DeviceRead (Inr b)) batches @ StopClosed # turns) w =
      Some (0, close ts (act (Print Stopped)
                 (foldl (\<lambda>w b. handleEvents ts b w) (act (Print (Ready (DevName dev))) w3) batches))))"
  by (simp add: processEvents_batches main_def)

text \<open>The only error that \<open>processEvents\<close> ever returns is that of a failed read.\<close>

lemma processEvents_error:
  "processEvents ts turns w = Some (Some err, w') \<Longrightarrow>
     \<exists>e. err = Errorf ''error reading events: %w'' [] [e]"
  by (induction ts turns w rule: processEvents.induct) auto

text \<open>
  Claim C3, at an input where the code departs from it. Every write to the virtual
  device fails with errno 5; the batch holds two horizontal samples, 10 and 20, and
  the stop channel is closed afterwards. The first emission fails, yet the second
  sample is still translated and its emission attempted, and \<open>processEvents\<close> returns
  without an error: \<open>handleEvents\<close> drops the error that \<open>sendScrollEvent\<close> returns.
\<close>

theorem emission_error_dropped:
  "processEvents (scrollerWith sens03 2)
     [DeviceRead (Inr [motion evdev_REL_X 10, motion evdev_REL_X 20]), StopClosed]
     (quietWorld\<lparr>syserr := (\<lambda>k. 5)\<rparr>) =
   Some (None, quietWorld\<lparr>syserr := (\<lambda>k. 5), trace :=
     [SysWrite 4 \<lparr>Time = \<lparr>Sec = 0, Usec = 0\<rparr>, Type = EV_REL, Code = REL_HWHEEL, Value = 3\<rparr> 5,
      SysWrite 4 \<lparr>Time = \<lparr>Sec = 0, Usec = 0\<rparr>, Type = EV_REL, Code = REL_HWHEEL, Value = 6\<rparr> 5]\<rparr>)"
  by (simp add: handleEvent_def sendScrollEvent_cases Let_def sens03_def float64_eval
      abs_int32_def evdev_REL_X_def quietWorld_def act_eq)

subsection \<open>The program\<close>

text \<open>Creating the virtual device when /dev/uinput opens and every request succeeds.\<close>

lemma newTrackballScroller_quiet:
  "uinput w = Inr n \<Longrightarrow> syserr w = (\<lambda>k. 0) \<Longrightarrow>
   newTrackballScroller dev sens dz w =
     (Inr \<lparr>device = Some dev, virtualFd = int n, sensitivity = sens, deadZone = dz\<rparr>,
      w\<lparr>trace := trace w @
        [SysOpen ''/dev/uinput'',
         IoctlVal (int n) UI_SET_EVBIT (unat EV_REL) 0,
         IoctlVal (int n) UI_SET_RELBIT (unat REL_WHEEL) 0,
         IoctlVal (int n) UI_SET_RELBIT (unat REL_HWHEEL) 0,
         IoctlVal (int n) UI_SET_EVBIT (unat EV_SYN) 0,
         IoctlSetup (int n) UI_DEV_SETUP
           \<lparr>ID = \<lparr>Bustype = 0x03, Vendor = 0x1234, Product = 0x5678, Version = 1\<rparr>,
            Name = ''Trackball Scroll Device'' @ replicate 57 (char_of (0 :: nat))\<rparr> 0,
         IoctlVal (int n) UI_DEV_CREATE 0 0,
         Sleep 100]\<rparr>)"
  by (simp add: newTrackballScroller_def createScrollOnlyDevice_def configureDevice_def
      setupDevice_def createDevice_def sys_eq Let_def act_eq UINPUT_MAX_NAME_SIZE_def
      DEVICE_SETUP_DELAY_def)

text \<open>
  Claim C4, at an input where the code departs from it. Both devices are acquired and
  the first read fails with errno 19. The program exits with status 1 and the last
  thing it does is print the fatal error: the virtual device is not destroyed, its
  descriptor is not closed and the grab is not released, since \<open>log.Fatalf\<close> exits
  without running the deferred \<open>close\<close>.
\<close>

theorem read_error_skips_cleanup:
  "main sens03 2 ''/dev/input/event3'' [DeviceRead (Inl (Errno 19))] quietWorld =
   Some (1, quietWorld\<lparr>trace :=
     [Print Banner,
      Print (DeviceLine ''/dev/input/event3'' sens03 2),
      EvdevOpen ''/dev/input/event3'',
      Grab ''/dev/input/event3'' 0,
      SysOpen ''/dev/uinput'',
      IoctlVal 4 UI_SET_EVBIT (unat EV_REL) 0,
      IoctlVal 4 UI_SET_RELBIT (unat REL_WHEEL) 0,
      IoctlVal 4 UI_SET_RELBIT (unat REL_HWHEEL) 0,
      IoctlVal 4 UI_SET_EVBIT (unat EV_SYN) 0,
      IoctlSetup 4 UI_DEV_SETUP
        \<lparr>ID = \<lparr>Bustype = 0x03, Vendor = 0x1234, Product = 0x5678, Version = 1\<rparr>,
         Name = ''Trackball Scroll Device'' @ replicate 57 (char_of (0 :: nat))\<rparr> 0,
      IoctlVal 4 UI_DEV_CREATE 0 0,
      Sleep 100,
      Print (Ready ''Kensington Expert Mouse''),
      Print (Fatal (Errorf ''Error processing events: %v'' []
        [Errorf ''error reading events: %w'' [] [Errno 19]]))]\<rparr>)"
  by (simp add: main_def selectDevice_def openTrackballDevice_def evdev_Open_def sys_eq
      newTrackballScroller_quiet [where n = 4] quietWorld_def act_eq)

text \<open>
  A run for Claim C6: one batch with a vertical sample, then the stop channel is
  closed; the batch that would follow is never read.
\<close>

theorem processEvents_stop_witness:
  "main sens03 2 ''/dev/input/event3''
     [DeviceRead (Inr [motion evdev_REL_Y 20]), StopClosed,
      DeviceRead (Inr [motion evdev_REL_X 20])] quietWorld =
   Some (0, quietWorld\<lparr>trace :=
     [Print Banner,
      Print (DeviceLine ''/dev/input/event3'' sens03 2),
      EvdevOpen ''/dev/input/event3'',
      Grab ''/dev/input/event3'' 0,
      SysOpen ''/dev/uinput'',
      IoctlVal 4 UI_SET_EVBIT (unat EV_REL) 0,
      IoctlVal 4 UI_SET_RELBIT (unat REL_WHEEL) 0,
      IoctlVal 4 UI_SET_RELBIT (unat REL_HWHEEL) 0,
      IoctlVal 4 UI_SET_EVBIT (unat EV_SYN) 0,
      IoctlSetup 4 UI_DEV_SETUP
        \<lparr>ID = \<lparr>Bustype = 0x03, Vendor = 0x1234, Product = 0x5678, Version = 1\<rparr>,
         Name = ''Trackball Scroll Device'' @ replicate 57 (char_of (0 :: nat))\<rparr> 0,
      IoctlVal 4 UI_DEV_CREATE 0 0,
      Sleep 100,
      Print (Ready ''Kensington Expert Mouse''),
      SysWrite 4 \<lparr>Time = \<lparr>Sec = 0, Usec = 0\<rparr>, Type = EV_REL, Code = REL_WHEEL, Value = - 6\<rparr> 0,
      SysWrite 4 \<lparr>Time = \<lparr>Sec = 0, Usec = 0\<rparr>, Type = EV_SYN, Code = SYN_REPORT, Value = 0\<rparr> 0,
      Print Stopped,
      IoctlVal 4 UI_DEV_DESTROY 0 0,
      SysClose 4,
      Release ''/dev/input/event3'']\<rparr>)"
proof -
  let ?p = "''/dev/input/event3''"
  let ?dev = "\<lparr>DevName = ''Kensington Expert Mouse'', Fn = ?p\<rparr>"
  let ?w1 = "act (Print Banner) quietWorld"
  let ?w2 = "act (Grab ?p 0) (act (EvdevOpen ?p) (act (Print (DeviceLine ?p sens03 2)) ?w1))"
  let ?ts = "\<lparr>device = Some ?dev, virtualFd = 4, sensitivity = sens03, deadZone = 2\<rparr>"
  obtain w3 where new: "newTrackballScroller ?dev sens03 2 ?w2 = (Inr ?ts, w3)"
    and w3: "w3 = ?w2\<lparr>trace := trace ?w2 @
        [SysOpen ''/dev/uinput'',
         IoctlVal 4 UI_SET_EVBIT (unat EV_REL) 0,
         IoctlVal 4 UI_SET_RELBIT (unat REL_WHEEL) 0,
         IoctlVal 4 UI_SET_RELBIT (unat REL_HWHEEL) 0,
         IoctlVal 4 UI_SET_EVBIT (unat EV_SYN) 0,
         IoctlSetup 4 UI_DEV_SETUP
           \<lparr>ID = \<lparr>Bustype = 0x03, Vendor = 0x1234, Product = 0x5678, Version = 1\<rparr>,
            Name = ''Trackball Scroll Device'' @ replicate 57 (char_of (0 :: nat))\<rparr> 0,
         IoctlVal 4 UI_DEV_CREATE 0 0,
         Sleep 100]\<rparr>"
    using newTrackballScroller_quiet [of ?w2 4 ?dev sens03 2] by (simp add: quietWorld_def)
  have sel: "selectDevice ?p ?w1 = (Inr ?p, ?w1)"
    by (simp add: selectDevice_def)
  have opn: "openTrackballDevice ?p (act (Print (DeviceLine ?p sens03 2)) ?w1) = (Inr ?dev, ?w2)"
    by (simp add: openTrackballDevice_def evdev_Open_def sys_eq quietWorld_def)
  have "main sens03 2 ?p
     (map (\<lambda>b. DeviceRead (Inr b)) [[motion evdev_REL_Y 20]] @ StopClosed #
        [DeviceRead (Inr [motion evdev_REL_X 20])]) quietWorld =
      Some (0, close ?ts (act (Print Stopped)
                 (foldl (\<lambda>w b. handleEvents ?ts b w) (act (Print (Ready (DevName ?dev))) w3)
                    [[motion evdev_REL_Y 20]])))"
    using processEvents_stop [where ts = ?ts and batches = "[[motion evdev_REL_Y 20]]"
        and turns = "[DeviceRead (Inr [motion evdev_REL_X 20])]" and w = quietWorld
        and path = ?p and p = ?p and ?w1.0 = ?w1 and sens = sens03 and dz = 2 and dev = ?dev
        and ?w2.0 = ?w2 and ?w3.0 = w3] sel opn new
    by simp
  then show ?thesis
    by (simp add: w3 handleEvent_def sendScrollEvent_cases close_def sys_eq Let_def sens03_def
        float64_eval abs_int32_def evdev_REL_X_def evdev_REL_Y_def quietWorld_def act_eq)
qed

subsection \<open>Discovery\<close>

lemma Contains_sublist: "Contains s substr = sublist substr s"
  by (induction s) (simp_all add: sublist_Cons_right)

lemma matchKeywords_iff: "matchKeywords name ks = (\<exists>k \<in> set ks. Contains name k)"
  by (induction ks) simp_all

lemmas char_eval = char_of_def bit_Suc_0_iff

text \<open>
  Claim C8. A device name is classified as a trackball exactly when its lower-cased
  form contains, as a contiguous substring, one of the keywords trackball,
  expert mouse, orbit, slimblade. Kensington Expert Mouse is a trackball and
  Generic USB Mouse is not, whatever the Unicode mapping, both names being ASCII.
\<close>

theorem isTrackballDevice_keywords:
  "isTrackballDevice lower deviceName =
     (\<exists>keyword \<in> {''trackball'', ''expert mouse'', ''orbit'', ''slimblade''}.
        sublist keyword (ToLower lower deviceName)) \<and>
   isTrackballDevice lower ''Kensington Expert Mouse'' \<and>
   \<not> isTrackballDevice lower ''Generic USB Mouse''"
proof -
  have "isTrackballDevice lower deviceName =
     (\<exists>keyword \<in> {''trackball'', ''expert mouse'', ''orbit'', ''slimblade''}.
        sublist keyword (ToLower lower deviceName))"
    by (simp add: isTrackballDevice_def Let_def matchKeywords_iff Contains_sublist
        trackballKeywords_def)
  moreover have "isTrackballDevice lower ''Kensington Expert Mouse''"
    by (simp add: isTrackballDevice_def trackballKeywords_def ToLower_def asciiLower_def
        Let_def char_eval)
  moreover have "\<not> isTrackballDevice lower ''Generic USB Mouse''"
    by (simp add: isTrackballDevice_def trackballKeywords_def ToLower_def asciiLower_def
        Let_def char_eval)
  ultimately show ?thesis by blast
qed

text \<open>A name in mixed case that contains a keyword.\<close>

theorem isTrackballDevice_keywords_witness:
  "sublist ''slimblade'' (ToLower (\<lambda>s. s) ''Kensington SlimBlade Pro'') \<and>
   isTrackballDevice (\<lambda>s. s) ''Kensington SlimBlade Pro''"
proof -
  have "sublist ''slimblade'' (ToLower (\<lambda>s. s) ''Kensington SlimBlade Pro'')"
    by (simp add: ToLower_def asciiLower_def Let_def char_eval
        Contains_sublist [symmetric])
  then show ?thesis
    using isTrackballDevice_keywords [of "\<lambda>s. s" "''Kensington SlimBlade Pro''"] by blast
qed

lemma scanNode_fields [simp]:
  "nodes (snd (scanNode i st)) = nodes (snd st)"
  "unicodeLower (snd (scanNode i st)) = unicodeLower (snd st)"
  by (auto simp: scanNode_def evdev_Open_def Let_def split: prod.splits sum.splits)

lemma scanNode_paths:
  "fst (scanNode i st) = fst st @ (if isTrackballNode (snd st) i then [devicePathOf i] else [])"
  by (auto simp: scanNode_def evdev_Open_def isTrackballNode_def Let_def
      split: prod.splits sum.splits)

lemma isTrackballNode_cong:
  "nodes w' = nodes w \<Longrightarrow> unicodeLower w' = unicodeLower w \<Longrightarrow>
     isTrackballNode w' = isTrackballNode w"
  by (rule ext) (simp add: isTrackballNode_def split: sum.splits)

lemma scan_fold:
  "nodes (snd (foldl (\<lambda>st i. scanNode i st) st ns)) = nodes (snd st) \<and>
   unicodeLower (snd (foldl (\<lambda>st i. scanNode i st) st ns)) = unicodeLower (snd st) \<and>
   fst (foldl (\<lambda>st i. scanNode i st) st ns) =
     fst st @ map devicePathOf (filter (isTrackballNode (snd st)) ns)"
proof (induction ns arbitrary: st)
  case Nil
  then show ?case by simp
next
  case (Cons n ns)
  have "isTrackballNode (snd (scanNode n st)) = isTrackballNode (snd st)"
    by (rule isTrackballNode_cong) simp_all
  with Cons [of "scanNode n st"] show ?case
    by (simp add: scanNode_paths)
qed

lemma findTrackballDevices_paths:
  "fst (findTrackballDevices w) =
     (map devicePathOf (filter (isTrackballNode w) [0..<MAX_EVENT_DEVICES]), None)"
  using scan_fold [of "([], w)" "[0..<MAX_EVENT_DEVICES]"]
  by (auto simp: findTrackballDevices_def split: prod.splits)

lemma isTrackballNode_act [simp]: "isTrackballNode (act a w) = isTrackballNode w"
  by (rule isTrackballNode_cong) simp_all

lemma selectDevice_auto:
  "fst (selectDevice ''auto'' w) =
     (case filter (isTrackballNode w) [0..<MAX_EVENT_DEVICES] of
        [] \<Rightarrow> Inl (Errorf
                ''no trackball devices found. Try to manually add a device with -device'' [] [])
      | i # others \<Rightarrow> Inr (devicePathOf i))"
proof -
  obtain r w1 where f: "findTrackballDevices (act (Print Detecting) w) = (r, w1)"
    by (cases "findTrackballDevices (act (Print Detecting) w)")
  with findTrackballDevices_paths [of "act (Print Detecting) w"]
  have r: "r = (map devicePathOf (filter (isTrackballNode w) [0..<MAX_EVENT_DEVICES]), None)"
    by simp
  show ?thesis
    by (cases "filter (isTrackballNode w) [0..<MAX_EVENT_DEVICES]")
       (simp_all add: selectDevice_def f r)
qed

text \<open>
  Claim C9. A device path other than the literal auto is returned unchanged and the
  world is untouched: no node is opened. With auto, when none of the nodes 0 to 31 is
  a trackball, \<open>selectDevice\<close> returns the error that no trackball was found and
  \<open>main\<close> exits with status 1; otherwise it returns the path of the trackball node
  with the least index, however many there are.
\<close>

theorem selectDevice_policy:
  "(devicePath \<noteq> ''auto'' \<longrightarrow> selectDevice devicePath w = (Inr devicePath, w)) \<and>
   (filter (isTrackballNode w) [0..<MAX_EVENT_DEVICES] = [] \<longrightarrow>
      fst (selectDevice ''auto'' w) =
        Inl (Errorf ''no trackball devices found. Try to manually add a device with -device''
               [] []) \<and>
      map_option fst (main sens dz ''auto'' turns w) = Some 1) \<and>
   (\<forall>i others. filter (isTrackballNode w) [0..<MAX_EVENT_DEVICES] = i # others \<longrightarrow>
      fst (selectDevice ''auto'' w) = Inr (devicePathOf i))"
proof -
  have a: "devicePath \<noteq> ''auto'' \<longrightarrow> selectDevice devicePath w = (Inr devicePath, w)"
    by (simp add: selectDevice_def)
  have b: "fst (selectDevice ''auto'' w) =
        Inl (Errorf ''no trackball devices found. Try to manually add a device with -device''
               [] [])"
    if "filter (isTrackballNode w) [0..<MAX_EVENT_DEVICES] = []"
    using that by (simp add: selectDevice_auto)
  have c: "map_option fst (main sens dz ''auto'' turns w) = Some 1"
    if "filter (isTrackballNode w) [0..<MAX_EVENT_DEVICES] = []"
  proof -
    have "fst (selectDevice ''auto'' (act (Print Banner) w)) =
        Inl (Errorf ''no trackball devices found. Try to manually add a device with -device''
               [] [])"
      using that by (simp add: selectDevice_auto)
    then show ?thesis
      by (cases "selectDevice ''auto'' (act (Print Banner) w)") (simp add: main_def)
  qed
  have d: "fst (selectDevice ''auto'' w) = Inr (devicePathOf i)"
    if "filter (isTrackballNode w) [0..<MAX_EVENT_DEVICES] = i # others" for i others
    using that by (simp add: selectDevice_auto)
  from a b c d show ?thesis by blast
qed

lemmas node_eval =
  MAX_EVENT_DEVICES_def upt_rec isTrackballNode_def devicePathOf_def decimal.simps char_eval
  isTrackballDevice_def trackballKeywords_def ToLower_def asciiLower_def Let_def

text \<open>
  An explicit path, an environment without any node, and one with trackballs at the
  nodes 3 and 12.
\<close>

theorem selectDevice_policy_witness:
  "selectDevice ''/dev/input/event7'' quietWorld = (Inr ''/dev/input/event7'', quietWorld) \<and>
   fst (selectDevice ''auto'' (quietWorld\<lparr>nodes := (\<lambda>p. Inl 2)\<rparr>)) =
     Inl (Errorf ''no trackball devices found. Try to manually add a device with -device''
            [] []) \<and>
   map_option fst (main sens03 2 ''auto'' [] (quietWorld\<lparr>nodes := (\<lambda>p. Inl 2)\<rparr>)) = Some 1 \<and>
   fst (selectDevice ''auto''
          (quietWorld\<lparr>nodes := (\<lambda>p. if p = ''/dev/input/event3'' then Inr ''Kensington Expert Mouse''
                                   else if p = ''/dev/input/event12'' then Inr ''ORBIT Wireless''
                                   else Inl 2)\<rparr>)) =
     Inr ''/dev/input/event3''"
proof -
  let ?none = "quietWorld\<lparr>nodes := (\<lambda>p. Inl 2)\<rparr>"
  let ?two = "quietWorld\<lparr>nodes := (\<lambda>p. if p = ''/dev/input/event3'' then Inr ''Kensington Expert Mouse''
                                   else if p = ''/dev/input/event12'' then Inr ''ORBIT Wireless''
                                   else Inl 2)\<rparr>"
  have none: "filter (isTrackballNode ?none) [0..<MAX_EVENT_DEVICES] = []"
    by (simp add: isTrackballNode_def)
  have two: "filter (isTrackballNode ?two) [0..<MAX_EVENT_DEVICES] = [3, 12]"
    by (simp add: node_eval quietWorld_def)
  have path: "devicePathOf 3 = ''/dev/input/event3''"
    by (simp add: devicePathOf_def decimal.simps char_eval)
  show ?thesis
    using selectDevice_policy [of "''/dev/input/event7''" quietWorld sens03 2 "[]"]
      selectDevice_policy [of "''auto''" ?none sens03 2 "[]"]
      selectDevice_policy [of "''auto''" ?two sens03 2 "[]"]
    by (simp add: none two path)
qed

end
